theory Spec2Isabelle
  imports Main "HOL-Library.Sublist" "HOL-Library.Multiset" "HOL-Library.Char_ord"
    "HOL-Library.List_Lexorder"
begin

section \<open>The book service: data model\<close>

text \<open>
  The service (book-service.ts) is six request handlers over one PostgreSQL table,
  \<^verbatim>\<open>book\<close>, declared by the migration quoted in db.ts:
  \<^verbatim>\<open>
  CREATE TABLE book (
      id UUID PRIMARY KEY DEFAULT gen_random_uuid(),
      title TEXT NOT NULL,
      author TEXT NOT NULL,
      published_date DATE,
      isbn TEXT UNIQUE,
      created_at TIMESTAMP DEFAULT CURRENT_TIMESTAMP,
      updated_at TIMESTAMP DEFAULT CURRENT_TIMESTAMP
  );
  \<close>
  A row of the table is a record with one field per column (prefix \<open>r_\<close>); the
  table is the list of its rows, in insertion order. Values of the columns are kept in the
  text form the store prints them in; a nullable column is an \<open>option\<close>.
\<close>

record book_row =
  r_id :: string
  r_title :: string
  r_author :: string
  r_published_date :: "string option"
  r_isbn :: "string option"
  r_created_at :: nat
  r_updated_at :: nat

type_synonym book_table = "book_row list"

text \<open>
  The TypeScript type \<^verbatim>\<open>Book\<close> (fields id, title, author, publishedDate?, isbn?);
  the fields carry the prefix \<open>b_\<close>, those of \<^verbatim>\<open>CreateBookParams\<close> the prefix
  \<open>c_\<close> and those of \<^verbatim>\<open>UpdateBookParams\<close> the prefix \<open>u_\<close>. An optional
  field that is \<^verbatim>\<open>undefined\<close> is \<open>None\<close>.
\<close>

record Book =
  b_id :: string
  b_title :: string
  b_author :: string
  b_publishedDate :: "string option"
  b_isbn :: "string option"

record CreateBookParams =
  c_title :: string
  c_author :: string
  c_publishedDate :: "string option"
  c_isbn :: "string option"

record UpdateBookParams =
  u_id :: string
  u_title :: "string option"
  u_author :: "string option"
  u_publishedDate :: "string option"
  u_isbn :: "string option"

text \<open>
  Errors. A handler either throws an \<^verbatim>\<open>APIError\<close> with a code and a message, or
  lets an error of the store through; both carry a message, which the \<^verbatim>\<open>catch\<close>
  blocks inspect.
\<close>

datatype ErrCode = NotFound | AlreadyExists | InvalidArgument | Internal

datatype error = APIError ErrCode string | StoreError string

fun message :: "error \<Rightarrow> string" where
  "message (APIError c m) = m"
| "message (StoreError m) = m"

text \<open>\<^verbatim>\<open>String.prototype.includes\<close>: the argument occurs as a contiguous substring.\<close>

definition includes_js :: "string \<Rightarrow> string \<Rightarrow> bool" where
  "includes_js s sub = sublist sub s"

text \<open>What a handler's outcome is classified as: the code of the \<^verbatim>\<open>APIError\<close> thrown.\<close>

fun failsWith :: "ErrCode \<Rightarrow> error + 'a \<Rightarrow> bool" where
  "failsWith c (Inl (APIError c' m)) = (c' = c)"
| "failsWith c (Inl (StoreError m)) = False"
| "failsWith c (Inr v) = False"

section \<open>The store\<close>

subsection \<open>The uuid type of the id column\<close>

text \<open>
  Every statement that compares \<^verbatim>\<open>id\<close> with a parameter hands the store a string for
  a column of type uuid, and the store converts it. The conversion is PostgreSQL's
  \<^verbatim>\<open>string_to_uuid\<close>: an optional opening brace, sixteen pairs of hexadecimal digits,
  an optional hyphen after every second pair, the closing brace if there was an opening
  one, and nothing after. The value is printed in lower case, grouped 8-4-4-4-12.
\<close>

definition isxdigit :: "char \<Rightarrow> bool" where
  "isxdigit c = (c \<in> set ''0123456789abcdefABCDEF'')"

definition tolower :: "char \<Rightarrow> char" where
  "tolower c =
     (case map_of (zip ''ABCDEFGHIJKLMNOPQRSTUVWXYZ'' ''abcdefghijklmnopqrstuvwxyz'') c of
        None \<Rightarrow> c
      | Some l \<Rightarrow> l)"

fun skip_hyphen :: "nat \<Rightarrow> string \<Rightarrow> string" where
  "skip_hyphen i (c # rest) = (if c = CHR ''-'' \<and> i mod 2 = 1 \<and> i < 15 then rest else c # rest)"
| "skip_hyphen i [] = []"

fun scan_uuid :: "nat \<Rightarrow> nat \<Rightarrow> string \<Rightarrow> (string \<times> string) option" where
  "scan_uuid 0 i src = Some ([], src)"
| "scan_uuid (Suc n) i (a # b # rest) =
     (if isxdigit a \<and> isxdigit b
      then (case scan_uuid n (Suc i) (skip_hyphen i rest) of
              None \<Rightarrow> None
            | Some (ds, rest2) \<Rightarrow> Some (tolower a # tolower b # ds, rest2))
      else None)"
| "scan_uuid (Suc n) i src = None"

definition string_to_uuid :: "string \<Rightarrow> string option" where
  "string_to_uuid source =
     (let braces = (case source of c # _ \<Rightarrow> c = CHR ''{'' | [] \<Rightarrow> False);
          src = (if braces then tl source else source)
      in case scan_uuid 16 0 src of
           None \<Rightarrow> None
         | Some (ds, rest) \<Rightarrow>
             if braces then (if rest = ''}'' then Some ds else None)
             else (if rest = [] then Some ds else None))"

definition uuid_out :: "string \<Rightarrow> string" where
  "uuid_out ds =
     take 8 ds @ ''-'' @ take 4 (drop 8 ds) @ ''-'' @ take 4 (drop 12 ds) @ ''-''
       @ take 4 (drop 16 ds) @ ''-'' @ drop 20 ds"

definition uuid_in :: "string \<Rightarrow> string option" where
  "uuid_in s = map_option uuid_out (string_to_uuid s)"

definition dquote :: "string \<Rightarrow> string" where
  "dquote s = [char_of (34::nat)] @ s @ [char_of (34::nat)]"

text \<open>Binding a string to a uuid parameter: the value, or the store's error.\<close>

definition invalid_input :: "string \<Rightarrow> string \<Rightarrow> error" where
  "invalid_input type s =
     StoreError (''invalid input syntax for type '' @ type @ '': '' @ dquote s)"

definition uuid_param :: "string \<Rightarrow> error + string" where
  "uuid_param s =
     (case uuid_in s of
        None \<Rightarrow> Inl (invalid_input ''uuid'' s)
      | Some u \<Rightarrow> Inr u)"

subsection \<open>Text parameters\<close>

text \<open>
  A string bound to a parameter of type text (or handed over as the text of a date) must be
  text of the store's encoding, and the NUL character is not: the store refuses the value
  before the statement runs.
\<close>

definition invalid_byte_sequence :: error where
  "invalid_byte_sequence =
     StoreError (''invalid byte sequence for encoding '' @ dquote ''UTF8'' @ '': 0x00'')"

definition text_param :: "string \<Rightarrow> error + string" where
  "text_param s = (if CHR 0x00 \<in> set s then Inl invalid_byte_sequence else Inr s)"

subsection \<open>The statements the handlers issue\<close>

text \<open>
  The select list \<^verbatim>\<open>id, title, author, published_date AS "publishedDate", isbn\<close>,
  shared by every statement that returns books.
\<close>

definition book_of_row :: "book_row \<Rightarrow> Book" where
  "book_of_row r =
     \<lparr>b_id = r_id r, b_title = r_title r, b_author = r_author r,
      b_publishedDate = r_published_date r, b_isbn = r_isbn r\<rparr>"

text \<open>\<^verbatim>\<open>SELECT ... FROM book WHERE id = $1\<close> through \<^verbatim>\<open>queryRow\<close>: the row or null.\<close>

definition select_by_id :: "book_table \<Rightarrow> string \<Rightarrow> error + Book option" where
  "select_by_id tbl i =
     (case uuid_param i of
        Inl e \<Rightarrow> Inl e
      | Inr u \<Rightarrow> Inr (map_option book_of_row (find (\<lambda>r. r_id r = u) tbl)))"

text \<open>\<^verbatim>\<open>SELECT 1 FROM book WHERE id = $1\<close> through \<^verbatim>\<open>queryRow\<close>.\<close>

definition select_1_by_id :: "book_table \<Rightarrow> string \<Rightarrow> error + unit option" where
  "select_1_by_id tbl i =
     (case uuid_param i of
        Inl e \<Rightarrow> Inl e
      | Inr u \<Rightarrow> Inr (map_option (\<lambda>r. ()) (find (\<lambda>r. r_id r = u) tbl)))"

text \<open>\<^verbatim>\<open>DELETE FROM book WHERE id = $1\<close> through \<^verbatim>\<open>exec\<close>: the table afterwards.\<close>

definition delete_by_id :: "book_table \<Rightarrow> string \<Rightarrow> error + book_table" where
  "delete_by_id tbl i =
     (case uuid_param i of
        Inl e \<Rightarrow> Inl e
      | Inr u \<Rightarrow> Inr (filter (\<lambda>r. r_id r \<noteq> u) tbl))"

text \<open>
  \<^verbatim>\<open>SELECT ... FROM book ORDER BY title ASC\<close> through \<^verbatim>\<open>query\<close>. The collation
  of \<^verbatim>\<open>title\<close> is taken to be the byte-wise one (the order of \<open>char list\<close>); the
  stable sort fixes the order among equal titles, which the statement leaves open.
\<close>

definition select_all :: "book_table \<Rightarrow> Book list" where
  "select_all tbl = map book_of_row (sort_key r_title tbl)"

subsection \<open>INSERT\<close>

text \<open>
  \<^verbatim>\<open>INSERT INTO book (title, author, published_date, isbn) VALUES ($1, $2, $3, $4)
  RETURNING ...\<close>. The statement depends on three things of the store that are not in
  the request and are parameters here: \<open>date_in\<close>, the input conversion of the type
  date (\<open>None\<close> when the text is rejected, otherwise the date as the store prints it),
  \<open>gen\<close>, the value \<^verbatim>\<open>gen_random_uuid()\<close> yields for \<^verbatim>\<open>id\<close>, and \<open>now\<close>,
  \<^verbatim>\<open>CURRENT_TIMESTAMP\<close>. An \<^verbatim>\<open>undefined\<close> parameter is bound as NULL. The
  parameters are converted in their order, title, author, published_date, isbn; then the
  primary key and the unique constraint on \<^verbatim>\<open>isbn\<close> (which NULLs never violate) are
  checked, and the row is appended.

  A text that the date type rejects is reported as a field value out of range when it has
  the shape year-month-day (three groups of digits), and as invalid input syntax otherwise.
\<close>

definition is_digit :: "char \<Rightarrow> bool" where
  "is_digit c = (c \<in> set ''0123456789'')"

definition date_shaped :: "string \<Rightarrow> bool" where
  "date_shaped s =
     (let y = takeWhile is_digit s; r1 = dropWhile is_digit s;
          m = takeWhile is_digit (drop 1 r1); r2 = dropWhile is_digit (drop 1 r1);
          d = drop 1 r2
      in y \<noteq> [] \<and> take 1 r1 = ''-'' \<and> m \<noteq> [] \<and> take 1 r2 = ''-''
         \<and> d \<noteq> [] \<and> list_all is_digit d)"

definition date_rejected :: "string \<Rightarrow> error" where
  "date_rejected s =
     (if date_shaped s
      then StoreError (''date/time field value out of range: '' @ dquote s)
      else invalid_input ''date'' s)"

definition date_param :: "(string \<Rightarrow> string option) \<Rightarrow> string option \<Rightarrow> error + string option" where
  "date_param date_in v =
     (case v of
        None \<Rightarrow> Inr None
      | Some s \<Rightarrow>
          (case text_param s of
             Inl e \<Rightarrow> Inl e
           | Inr t \<Rightarrow>
               (case date_in t of
                  None \<Rightarrow> Inl (date_rejected t)
                | Some d \<Rightarrow> Inr (Some d))))"

definition opt_text_param :: "string option \<Rightarrow> error + string option" where
  "opt_text_param v =
     (case v of
        None \<Rightarrow> Inr None
      | Some s \<Rightarrow> (case text_param s of Inl e \<Rightarrow> Inl e | Inr t \<Rightarrow> Inr (Some t)))"

definition duplicate_key :: "string \<Rightarrow> error" where
  "duplicate_key constraint =
     StoreError (''duplicate key value violates unique constraint '' @ dquote constraint)"

definition insert_returning ::
  "(string \<Rightarrow> string option) \<Rightarrow> string \<Rightarrow> nat \<Rightarrow> book_table \<Rightarrow> CreateBookParams
     \<Rightarrow> error + (Book option \<times> book_table)" where
  "insert_returning date_in gen now tbl params =
     (case text_param (c_title params) of
        Inl e \<Rightarrow> Inl e
      | Inr title \<Rightarrow>
     (case text_param (c_author params) of
        Inl e \<Rightarrow> Inl e
      | Inr author \<Rightarrow>
     (case date_param date_in (c_publishedDate params) of
        Inl e \<Rightarrow> Inl e
      | Inr d \<Rightarrow>
     (case opt_text_param (c_isbn params) of
        Inl e \<Rightarrow> Inl e
      | Inr isbn \<Rightarrow>
          if gen \<in> set (map r_id tbl) then Inl (duplicate_key ''book_pkey'')
          else if isbn \<noteq> None \<and> isbn \<in> set (map r_isbn tbl)
          then Inl (duplicate_key ''book_isbn_key'')
          else
            (let r = \<lparr>r_id = gen, r_title = title, r_author = author,
                      r_published_date = d, r_isbn = isbn,
                      r_created_at = now, r_updated_at = now\<rparr>
             in Inr (Some (book_of_row r), tbl @ [r]))))))"

subsection \<open>UPDATE\<close>

text \<open>
  \<^verbatim>\<open>db.queryRow\<close> is a tagged template: every \<^verbatim>\<open>${...}\<close> of the template becomes a
  bound parameter \<^verbatim>\<open>$n\<close> of the statement, never statement text. The statement that
  \<^verbatim>\<open>updateBook\<close> issues,
  \<^verbatim>\<open>UPDATE book SET ${updateClause} WHERE id = ${params.id} RETURNING ...\<close>,
  therefore reaches the store as \<^verbatim>\<open>UPDATE book SET $1 WHERE id = $2 RETURNING ...\<close>
  with the assembled clause as the value of \<^verbatim>\<open>$1\<close>. A parameter cannot stand for
  an assignment list, so the store rejects the statement when it parses it, before any
  parameter is converted and before any row is touched.
\<close>

definition syntax_error_at :: "string \<Rightarrow> error" where
  "syntax_error_at token = StoreError (''syntax error at or near '' @ dquote token)"

definition update_set_param ::
  "book_table \<Rightarrow> string \<Rightarrow> string \<Rightarrow> error + (Book option \<times> book_table)" where
  "update_set_param tbl updateClause i = Inl (syntax_error_at ''$1'')"

subsection \<open>ILIKE\<close>

text \<open>
  A LIKE pattern: \<^verbatim>\<open>%\<close> stands for any string, \<^verbatim>\<open>_\<close> for any one character, a
  backslash makes the next character stand for itself, and a pattern that ends in a lone
  backslash is an error. Text is its UTF-8 bytes: one character is a byte and the
  continuation bytes (\<^verbatim>\<open>10xxxxxx\<close>) that follow it, and \<^verbatim>\<open>_\<close> takes all of them.
  The string that \<^verbatim>\<open>%\<close> stands for may end at any byte here; in UTF-8 text what follows
  it in the pattern can only match from the first byte of a character on.

  ILIKE matches the text, folded to lower case, against the pattern, folded to lower case.
  The folding is the store's function \<^verbatim>\<open>lower\<close>, which depends on the locale of the
  database and is not in the repository: it is the parameter \<open>lower\<close>.
\<close>

definition utf8_continuation :: "char \<Rightarrow> bool" where
  "utf8_continuation c = (128 \<le> (of_char c :: nat) \<and> (of_char c :: nat) < 192)"

datatype like_tok = AnyString | AnyChar | Lit char

fun like_parse :: "string \<Rightarrow> like_tok list option" where
  "like_parse [] = Some []"
| "like_parse (c # cs) =
     (if c = CHR 0x5C then
        (case cs of
           [] \<Rightarrow> None
         | d # ds \<Rightarrow> map_option ((#) (Lit d)) (like_parse ds))
      else if c = CHR ''%'' then map_option ((#) AnyString) (like_parse cs)
      else if c = CHR ''_'' then map_option ((#) AnyChar) (like_parse cs)
      else map_option ((#) (Lit c)) (like_parse cs))"

function like_match :: "like_tok list \<Rightarrow> string \<Rightarrow> bool" where
  "like_match [] t = (t = [])"
| "like_match (AnyString # ps) [] = like_match ps []"
| "like_match (AnyString # ps) (c # cs) =
     (like_match ps (c # cs) \<or> like_match (AnyString # ps) cs)"
| "like_match (AnyChar # ps) [] = False"
| "like_match (AnyChar # ps) (c # cs) = like_match ps (dropWhile utf8_continuation cs)"
| "like_match (Lit d # ps) [] = False"
| "like_match (Lit d # ps) (c # cs) = (c = d \<and> like_match ps cs)"
  by pat_completeness auto
termination
  by (relation "measure (\<lambda>(ps, t). length ps + length t)")
    (auto simp add: less_Suc_eq_le le_SucI length_dropWhile_le)

definition ilike :: "(string \<Rightarrow> string) \<Rightarrow> like_tok list \<Rightarrow> string \<Rightarrow> bool" where
  "ilike lower toks t = like_match toks (lower t)"

text \<open>
  \<^verbatim>\<open>SELECT ... FROM book WHERE title ILIKE $1 OR author ILIKE $1 ORDER BY title ASC\<close>
  through \<^verbatim>\<open>query\<close>.
\<close>

definition select_ilike ::
  "(string \<Rightarrow> string) \<Rightarrow> book_table \<Rightarrow> string \<Rightarrow> error + Book list" where
  "select_ilike lower tbl searchPattern =
     (case text_param searchPattern of
        Inl e \<Rightarrow> Inl e
      | Inr pattern \<Rightarrow>
          (case like_parse (lower pattern) of
             None \<Rightarrow> Inl (StoreError ''LIKE pattern must not end with escape character'')
           | Some toks \<Rightarrow>
               Inr (map book_of_row
                      (sort_key r_title
                         (filter (\<lambda>r. ilike lower toks (r_title r)
                                     \<or> ilike lower toks (r_author r)) tbl)))))"

section \<open>The handlers\<close>

text \<open>
  A handler takes the table and its request and returns its outcome, \<open>Inl\<close> the error
  thrown or \<open>Inr\<close> the response, together with the table afterwards.
\<close>

definition listBooks :: "book_table \<Rightarrow> (error + Book list) \<times> book_table" where
  "listBooks tbl = (Inr (select_all tbl), tbl)"

definition getBook :: "book_table \<Rightarrow> string \<Rightarrow> (error + Book) \<times> book_table" where
  "getBook tbl i =
     (case select_by_id tbl i of
        Inl e \<Rightarrow> (Inl e, tbl)
      | Inr None \<Rightarrow> (Inl (APIError NotFound (''Book with ID '' @ i @ '' not found'')), tbl)
      | Inr (Some book) \<Rightarrow> (Inr book, tbl))"

text \<open>
  The \<^verbatim>\<open>catch\<close> block of \<^verbatim>\<open>createBook\<close> and \<^verbatim>\<open>updateBook\<close>: an error whose
  message includes \<^verbatim>\<open>duplicate key\<close> becomes AlreadyExists, any other is thrown again.
\<close>

definition on_catch :: "error \<Rightarrow> error" where
  "on_catch err =
     (if includes_js (message err) ''duplicate key''
      then APIError AlreadyExists ''A book with this ISBN already exists''
      else err)"

definition createBook ::
  "(string \<Rightarrow> string option) \<Rightarrow> string \<Rightarrow> nat \<Rightarrow> book_table \<Rightarrow> CreateBookParams
     \<Rightarrow> (error + Book) \<times> book_table" where
  "createBook date_in gen now tbl params =
     (case insert_returning date_in gen now tbl params of
        Inl err \<Rightarrow> (Inl (on_catch err), tbl)
      | Inr (None, tbl') \<Rightarrow> (Inl (on_catch (APIError Internal ''Failed to create book'')), tbl')
      | Inr (Some result, tbl') \<Rightarrow> (Inr result, tbl'))"

text \<open>
  The SET clause of \<^verbatim>\<open>updateBook\<close>: for each field that is not \<^verbatim>\<open>undefined\<close>, in
  the order title, author, publishedDate, isbn, an assignment \<^verbatim>\<open>column = $k\<close> is pushed
  on \<^verbatim>\<open>updates\<close> and the value on \<^verbatim>\<open>values\<close>; then the timestamp assignment.
\<close>

fun show_nat :: "nat \<Rightarrow> string" where
  "show_nat n =
     (if n < 10 then [char_of (48 + n)]
      else show_nat (n div 10) @ [char_of (48 + n mod 10)])"

definition push_field ::
  "string \<Rightarrow> string option \<Rightarrow> string list \<times> string list \<Rightarrow> string list \<times> string list" where
  "push_field column v uv =
     (case v of
        None \<Rightarrow> uv
      | Some x \<Rightarrow>
          (fst uv @ [column @ '' = $'' @ show_nat (length (snd uv) + 1)], snd uv @ [x]))"

definition build_updates :: "UpdateBookParams \<Rightarrow> string list \<times> string list" where
  "build_updates params =
     (let uv = push_field ''isbn'' (u_isbn params)
                 (push_field ''published_date'' (u_publishedDate params)
                    (push_field ''author'' (u_author params)
                       (push_field ''title'' (u_title params) ([], []))))
      in (fst uv @ [''updated_at = CURRENT_TIMESTAMP''], snd uv))"

fun join_js :: "string \<Rightarrow> string list \<Rightarrow> string" where
  "join_js sep [] = []"
| "join_js sep [x] = x"
| "join_js sep (x # y # ys) = x @ sep @ join_js sep (y # ys)"

text \<open>
  \<^verbatim>\<open>updateBook\<close>: the existence check is outside the \<^verbatim>\<open>try\<close>; everything after it
  is inside. \<^verbatim>\<open>values\<close> is assembled and never handed to the store.
\<close>

definition updateBook :: "book_table \<Rightarrow> UpdateBookParams \<Rightarrow> (error + Book) \<times> book_table" where
  "updateBook tbl params =
     (case select_1_by_id tbl (u_id params) of
        Inl e \<Rightarrow> (Inl e, tbl)
      | Inr None \<Rightarrow>
          (Inl (APIError NotFound (''Book with ID '' @ u_id params @ '' not found'')), tbl)
      | Inr (Some exists) \<Rightarrow>
          (let updates = fst (build_updates params);
               values = snd (build_updates params)
           in if length updates = 1 \<and> updates ! 0 = ''updated_at = CURRENT_TIMESTAMP''
              then (Inl (on_catch (APIError InvalidArgument ''No fields to update were provided'')), tbl)
              else
                (case update_set_param tbl (join_js '', '' updates) (u_id params) of
                   Inl err \<Rightarrow> (Inl (on_catch err), tbl)
                 | Inr (None, tbl') \<Rightarrow>
                     (Inl (on_catch (APIError Internal ''Failed to update book'')), tbl')
                 | Inr (Some book, tbl') \<Rightarrow> (Inr book, tbl'))))"

text \<open>
  \<^verbatim>\<open>deleteBook\<close> deletes first and looks the id up afterwards; it throws NotFound when
  the row is still there and answers \<^verbatim>\<open>{ success: true }\<close> otherwise.
\<close>

definition deleteBook :: "book_table \<Rightarrow> string \<Rightarrow> (error + bool) \<times> book_table" where
  "deleteBook tbl i =
     (case delete_by_id tbl i of
        Inl e \<Rightarrow> (Inl e, tbl)
      | Inr tbl' \<Rightarrow>
          (case select_1_by_id tbl' i of
             Inl e \<Rightarrow> (Inl e, tbl')
           | Inr (Some stillExists) \<Rightarrow>
               (Inl (APIError NotFound (''Book with ID '' @ i @ '' not found'')), tbl')
           | Inr None \<Rightarrow> (Inr True, tbl')))"

definition searchBooks ::
  "(string \<Rightarrow> string) \<Rightarrow> book_table \<Rightarrow> string \<Rightarrow> (error + Book list) \<times> book_table" where
  "searchBooks lower tbl query =
     (let searchPattern = ''%'' @ query @ ''%''
      in case select_ilike lower tbl searchPattern of
           Inl e \<Rightarrow> (Inl e, tbl)
         | Inr books \<Rightarrow> (Inr books, tbl))"

section \<open>Example data\<close>

text \<open>The book of the test suite (book-service.test.ts), as a row, and requests on it.\<close>

definition test_row :: book_row where
  "test_row =
     \<lparr>r_id = ''6f1c2a3e-0b4d-4c5e-8f90-a1b2c3d4e5f6'', r_title = ''Test Book'',
      r_author = ''Test Author'', r_published_date = Some ''2023-01-01'',
      r_isbn = Some ''1234567890123'', r_created_at = 1, r_updated_at = 1\<rparr>"

definition no_fields :: "string \<Rightarrow> UpdateBookParams" where
  "no_fields i =
     \<lparr>u_id = i, u_title = None, u_author = None, u_publishedDate = None, u_isbn = None\<rparr>"

definition title_author_update :: UpdateBookParams where
  "title_author_update =
     \<lparr>u_id = ''6f1c2a3e-0b4d-4c5e-8f90-a1b2c3d4e5f6'', u_title = Some ''Updated Test Book'',
      u_author = Some ''Updated Test Author'', u_publishedDate = None, u_isbn = None\<rparr>"

definition other_row :: book_row where
  "other_row =
     \<lparr>r_id = ''0a1b2c3d-4e5f-4a6b-8c7d-9e0f1a2b3c4d'', r_title = ''Another Book'',
      r_author = ''Test Author 1'', r_published_date = None,
      r_isbn = Some ''9876543210123'', r_created_at = 2, r_updated_at = 2\<rparr>"

definition isbn_update :: UpdateBookParams where
  "isbn_update =
     \<lparr>u_id = ''0a1b2c3d-4e5f-4a6b-8c7d-9e0f1a2b3c4d'', u_title = None,
      u_author = None, u_publishedDate = None, u_isbn = Some ''1234567890123''\<rparr>"

definition test_params :: CreateBookParams where
  "test_params =
     \<lparr>c_title = ''Test Book'', c_author = ''Test Author'',
      c_publishedDate = Some ''2023-01-01'', c_isbn = Some ''1234567890123''\<rparr>"

definition third_params :: CreateBookParams where
  "third_params =
     \<lparr>c_title = ''Middle Book'', c_author = ''Writer'', c_publishedDate = None,
      c_isbn = None\<rparr>"

definition third_row :: book_row where
  "third_row =
     \<lparr>r_id = ''aaaaaaaa-bbbb-4ccc-8ddd-eeeeeeeeeeee'', r_title = ''Middle Book'',
      r_author = ''Writer'', r_published_date = None, r_isbn = None,
      r_created_at = 3, r_updated_at = 3\<rparr>"

text \<open>The folding of ASCII text: the letters A to Z to a to z, every other byte as it is.\<close>

definition ascii_lower :: "string \<Rightarrow> string" where
  "ascii_lower s = map tolower s"

section \<open>Notions of the specification\<close>

text \<open>
  Following the specification's words, for comparison with what \<^verbatim>\<open>searchBooks\<close>
  computes: \<open>t\<close> contains \<open>q\<close> as a case-insensitive substring, the case folded
  as the store folds it; and the characters with a special meaning in a LIKE pattern.
\<close>

definition ci_contains :: "(string \<Rightarrow> string) \<Rightarrow> string \<Rightarrow> string \<Rightarrow> bool" where
  "ci_contains lower q t = sublist (lower q) (lower t)"

definition like_special :: "char \<Rightarrow> bool" where
  "like_special c = (c = CHR ''%'' \<or> c = CHR ''_'' \<or> c = CHR 0x5C)"

text \<open>
  What the folding does to the pattern of a query: it works character by character, so the
  two percent signs around the query stay where they are, and it turns no character into
  one of the three pattern characters.
\<close>

definition folds_pattern :: "(string \<Rightarrow> string) \<Rightarrow> string \<Rightarrow> bool" where
  "folds_pattern lower q =
     (lower (''%'' @ q @ ''%'') = ''%'' @ lower q @ ''%''
      \<and> (list_ex like_special (lower q) \<longrightarrow> list_ex like_special q))"

text \<open>The invariant of the data model: the non-null isbn values of the table are distinct.\<close>

definition isbn_unique :: "book_table \<Rightarrow> bool" where
  "isbn_unique tbl = distinct (filter (\<lambda>x. x \<noteq> None) (map r_isbn tbl))"

section \<open>Looking a row up by id\<close>

lemma find_filter_neq: "find (\<lambda>r. f r = u) (filter (\<lambda>r. f r \<noteq> u) xs) = None"
  by (induction xs) auto

lemma find_absent: "u \<notin> f ` set xs \<Longrightarrow> find (\<lambda>r. f r = u) xs = None"
  by (induction xs) auto

lemma find_present:
  "u \<in> f ` set xs \<Longrightarrow> \<exists>r. find (\<lambda>r. f r = u) xs = Some r \<and> r \<in> set xs \<and> f r = u"
  by (induction xs) auto

lemma select_1_absent:
  "uuid_in i = Some u \<Longrightarrow> u \<notin> r_id ` set tbl \<Longrightarrow> select_1_by_id tbl i = Inr None"
  by (simp add: select_1_by_id_def uuid_param_def find_absent)

lemma select_1_present:
  "uuid_in i = Some u \<Longrightarrow> u \<in> r_id ` set tbl \<Longrightarrow> select_1_by_id tbl i = Inr (Some ())"
  using find_present[of u r_id tbl] by (auto simp add: select_1_by_id_def uuid_param_def)

section \<open>deleteBook\<close>

text \<open>
  The lookup that follows the DELETE never finds the row, whether or not there was one:
  \<^verbatim>\<open>deleteBook\<close> answers success for every id the store accepts, and an id the store
  does not accept fails in the store. The NotFound branch is dead.
\<close>

lemma deleteBook_wellformed:
  "uuid_in i = Some u \<Longrightarrow> deleteBook tbl i = (Inr True, filter (\<lambda>r. r_id r \<noteq> u) tbl)"
  by (simp add: deleteBook_def delete_by_id_def select_1_by_id_def uuid_param_def
      find_filter_neq)

lemma deleteBook_never_NotFound: "\<not> failsWith NotFound (fst (deleteBook tbl i))"
  by (auto simp: deleteBook_def delete_by_id_def select_1_by_id_def uuid_param_def
      find_filter_neq invalid_input_def split: option.splits sum.splits)

text \<open>
  Claim C1: \<^verbatim>\<open>deleteBook(id)\<close> fails with NotFound when no row has the id, and a
  second delete after a successful one yields NotFound as well. The handler does neither.
  On the empty table, deleting the all-zero id answers success; deleting the test book
  answers success and removes it, and deleting it again answers success once more.
\<close>

theorem deleteBook_absent_id_succeeds:
  "deleteBook [] ''00000000-0000-0000-0000-000000000000'' = (Inr True, [])
   \<and> deleteBook [test_row] ''6f1c2a3e-0b4d-4c5e-8f90-a1b2c3d4e5f6'' = (Inr True, [])
   \<and> deleteBook (snd (deleteBook [test_row] ''6f1c2a3e-0b4d-4c5e-8f90-a1b2c3d4e5f6''))
        ''6f1c2a3e-0b4d-4c5e-8f90-a1b2c3d4e5f6'' = (Inr True, [])"
  by code_simp

section \<open>getBook\<close>

text \<open>
  Claim C4, as amended: for every well-formed id that no row has, \<^verbatim>\<open>getBook\<close> fails
  with NotFound. The service does not validate the id; an id that the uuid type does not
  accept is rejected by the store, and that error leaves the handler as it is.
\<close>

theorem getBook_absent_id:
  "(\<forall>u. uuid_in i = Some u \<longrightarrow> u \<notin> r_id ` set tbl \<longrightarrow>
      getBook tbl i = (Inl (APIError NotFound (''Book with ID '' @ i @ '' not found'')), tbl))
   \<and> (uuid_in i = None \<longrightarrow> getBook tbl i = (Inl (invalid_input ''uuid'' i), tbl))"
  by (simp add: getBook_def select_by_id_def uuid_param_def find_absent)

theorem getBook_absent_id_witness:
  "uuid_in ''00000000-0000-0000-0000-000000000000'' = Some ''00000000-0000-0000-0000-000000000000''
   \<and> ''00000000-0000-0000-0000-000000000000'' \<notin> r_id ` set [test_row]
   \<and> getBook [test_row] ''00000000-0000-0000-0000-000000000000''
       = (Inl (APIError NotFound ''Book with ID 00000000-0000-0000-0000-000000000000 not found''),
          [test_row])
   \<and> uuid_in ''1234'' = None
   \<and> getBook [test_row] ''1234'' = (Inl (invalid_input ''uuid'' ''1234''), [test_row])"
proof -
  have h1: "uuid_in ''00000000-0000-0000-0000-000000000000''
              = Some ''00000000-0000-0000-0000-000000000000''"
    by code_simp
  have h2: "''00000000-0000-0000-0000-000000000000'' \<notin> r_id ` set [test_row]"
    by (simp add: test_row_def)
  have h3: "uuid_in ''1234'' = None"
    by code_simp
  show ?thesis
    using h1 h2 h3
      getBook_absent_id[of "''00000000-0000-0000-0000-000000000000''" "[test_row]"]
      getBook_absent_id[of "''1234''" "[test_row]"]
    by simp
qed

text \<open>
  Claim C4 as stated fails: the malformed id \<^verbatim>\<open>not-a-uuid\<close> does not yield NotFound
  but the store's error.
\<close>

theorem getBook_malformed_id_counterexample:
  "getBook [] ''not-a-uuid'' = (Inl (invalid_input ''uuid'' ''not-a-uuid''), [])
   \<and> \<not> failsWith NotFound (fst (getBook [] ''not-a-uuid''))"
  by code_simp

section \<open>updateBook\<close>

lemma on_catch_no_fields:
  "on_catch (APIError InvalidArgument ''No fields to update were provided'')
     = APIError InvalidArgument ''No fields to update were provided''"
  by code_simp

lemma on_catch_syntax_error: "on_catch (syntax_error_at ''$1'') = syntax_error_at ''$1''"
  by code_simp

lemma build_updates_none:
  "u_title p = None \<Longrightarrow> u_author p = None \<Longrightarrow> u_publishedDate p = None \<Longrightarrow> u_isbn p = None
     \<Longrightarrow> fst (build_updates p) = [''updated_at = CURRENT_TIMESTAMP'']"
  by (simp add: build_updates_def push_field_def)

lemma length_push_field:
  "length (fst (push_field c v uv)) = length (fst uv) + (if v = None then 0 else 1)"
  by (simp add: push_field_def split: option.splits)

lemma build_updates_some:
  "u_title p \<noteq> None \<or> u_author p \<noteq> None \<or> u_publishedDate p \<noteq> None \<or> u_isbn p \<noteq> None
     \<Longrightarrow> length (fst (build_updates p)) \<noteq> 1"
  by (auto simp add: build_updates_def Let_def length_push_field)

text \<open>
  With at least one field supplied the handler reaches the UPDATE statement, the store
  rejects it, and the \<^verbatim>\<open>catch\<close> block throws the rejection again: no row changes and
  no Book is returned, whatever the fields are.
\<close>

lemma updateBook_fields_rejected:
  assumes "uuid_in (u_id p) = Some u" and "u \<in> r_id ` set tbl"
    and "u_title p \<noteq> None \<or> u_author p \<noteq> None \<or> u_publishedDate p \<noteq> None \<or> u_isbn p \<noteq> None"
  shows "updateBook tbl p = (Inl (syntax_error_at ''$1''), tbl)"
  using build_updates_some[OF assms(3)]
  by (simp add: updateBook_def select_1_present[OF assms(1,2)] Let_def update_set_param_def
      on_catch_syntax_error)

lemma updateBook_never_returns: "fst (updateBook tbl p) \<noteq> Inr b"
  by (auto simp add: updateBook_def Let_def update_set_param_def split: sum.splits option.splits)

text \<open>
  Claim C6, as amended: for every well-formed id that no row has, \<^verbatim>\<open>updateBook\<close> fails
  with NotFound, whatever fields are supplied, none included: the existence check comes
  before the count of the fields.
\<close>

theorem updateBook_absent_id:
  assumes "uuid_in (u_id p) = Some u" and "u \<notin> r_id ` set tbl"
  shows "updateBook tbl p
           = (Inl (APIError NotFound (''Book with ID '' @ u_id p @ '' not found'')), tbl)"
  by (simp add: updateBook_def select_1_absent[OF assms])

theorem updateBook_absent_id_witness:
  "uuid_in (u_id (no_fields ''00000000-0000-0000-0000-000000000000''))
     = Some ''00000000-0000-0000-0000-000000000000''
   \<and> ''00000000-0000-0000-0000-000000000000'' \<notin> r_id ` set [test_row]
   \<and> updateBook [test_row] (no_fields ''00000000-0000-0000-0000-000000000000'')
       = (Inl (APIError NotFound ''Book with ID 00000000-0000-0000-0000-000000000000 not found''),
          [test_row])"
proof -
  have h1: "uuid_in (u_id (no_fields ''00000000-0000-0000-0000-000000000000''))
              = Some ''00000000-0000-0000-0000-000000000000''"
    by code_simp
  have h2: "''00000000-0000-0000-0000-000000000000'' \<notin> r_id ` set [test_row]"
    by (simp add: test_row_def)
  show ?thesis
    using h1 h2 updateBook_absent_id[OF h1 h2] by (simp add: no_fields_def)
qed

text \<open>
  Claim C6 as stated fails: no row has the id \<^verbatim>\<open>not-a-uuid\<close>, and \<^verbatim>\<open>updateBook\<close>
  on it, with no field supplied, yields the store's error, not NotFound.
\<close>

theorem updateBook_malformed_id_counterexample:
  "updateBook [] (no_fields ''not-a-uuid'') = (Inl (invalid_input ''uuid'' ''not-a-uuid''), [])
   \<and> \<not> failsWith NotFound (fst (updateBook [] (no_fields ''not-a-uuid'')))"
  by code_simp

text \<open>
  Claim C7: for every existing id, \<^verbatim>\<open>updateBook\<close> with none of title, author,
  publishedDate and isbn supplied fails with InvalidArgument and leaves the table, and so
  the row, unchanged.
\<close>

theorem updateBook_without_fields:
  assumes "uuid_in (u_id p) = Some u" and "u \<in> r_id ` set tbl"
    and "u_title p = None" and "u_author p = None"
    and "u_publishedDate p = None" and "u_isbn p = None"
  shows "updateBook tbl p
           = (Inl (APIError InvalidArgument ''No fields to update were provided''), tbl)"
  by (simp add: updateBook_def select_1_present[OF assms(1,2)] Let_def
      build_updates_none[OF assms(3-6)] on_catch_no_fields)

theorem updateBook_without_fields_witness:
  "uuid_in (u_id (no_fields ''6F1C2A3E-0B4D-4C5E-8F90-A1B2C3D4E5F6''))
     = Some ''6f1c2a3e-0b4d-4c5e-8f90-a1b2c3d4e5f6''
   \<and> ''6f1c2a3e-0b4d-4c5e-8f90-a1b2c3d4e5f6'' \<in> r_id ` set [test_row]
   \<and> updateBook [test_row] (no_fields ''6F1C2A3E-0B4D-4C5E-8F90-A1B2C3D4E5F6'')
       = (Inl (APIError InvalidArgument ''No fields to update were provided''), [test_row])"
proof -
  have h1: "uuid_in (u_id (no_fields ''6F1C2A3E-0B4D-4C5E-8F90-A1B2C3D4E5F6''))
              = Some ''6f1c2a3e-0b4d-4c5e-8f90-a1b2c3d4e5f6''"
    by code_simp
  have h2: "''6f1c2a3e-0b4d-4c5e-8f90-a1b2c3d4e5f6'' \<in> r_id ` set [test_row]"
    by (simp add: test_row_def)
  show ?thesis
    using h1 h2 updateBook_without_fields[OF h1 h2] by (simp add: no_fields_def)
qed

text \<open>
  Claim C2: \<^verbatim>\<open>updateBook\<close> on an existing Book changes exactly the supplied fields
  and \<^verbatim>\<open>updatedAt\<close> and returns the updated row. The handler does not. On the request of
  the test suite (title and author supplied for the test book) it throws the store's
  syntax error, the table is as before, and \<^verbatim>\<open>getBook\<close> still answers the old title.
\<close>

theorem updateBook_title_author_rejected:
  "updateBook [test_row] title_author_update = (Inl (syntax_error_at ''$1''), [test_row])
   \<and> getBook (snd (updateBook [test_row] title_author_update))
         ''6f1c2a3e-0b4d-4c5e-8f90-a1b2c3d4e5f6''
       = (Inr (book_of_row test_row), [test_row])
   \<and> b_title (book_of_row test_row) = ''Test Book''"
  by code_simp

section \<open>createBook\<close>

lemma includes_duplicate_key: "includes_js (message (duplicate_key c)) ''duplicate key''"
  by (simp add: includes_js_def duplicate_key_def sublist_def) (metis append_Nil)

lemma on_catch_duplicate_key:
  "on_catch (duplicate_key c) = APIError AlreadyExists ''A book with this ISBN already exists''"
  by (simp only: on_catch_def includes_duplicate_key if_True)

text \<open>What a successful \<^verbatim>\<open>createBook\<close> has done.\<close>

lemma createBook_success:
  assumes "createBook date_in gen now tbl p = (Inr b, tbl')"
  shows "gen \<notin> r_id ` set tbl \<and> (c_isbn p = None \<or> c_isbn p \<notin> r_isbn ` set tbl)
    \<and> tbl' = tbl @ [\<lparr>r_id = gen, r_title = c_title p, r_author = c_author p,
            r_published_date = Option.bind (c_publishedDate p) date_in, r_isbn = c_isbn p,
            r_created_at = now, r_updated_at = now\<rparr>]
    \<and> b = \<lparr>b_id = gen, b_title = c_title p, b_author = c_author p,
            b_publishedDate = Option.bind (c_publishedDate p) date_in, b_isbn = c_isbn p\<rparr>"
  using assms
  by (auto simp add: createBook_def insert_returning_def date_param_def text_param_def
      opt_text_param_def Let_def book_of_row_def
      split: option.splits sum.splits if_splits)

text \<open>
  The unique constraint on \<^verbatim>\<open>isbn\<close> at \<^verbatim>\<open>createBook\<close>: an isbn that a row already
  has is refused with AlreadyExists, and a Book without isbn is accepted next to any
  other, given values that the store accepts: no NUL in title, author, date and isbn, and
  a date that the date type reads, or none.
\<close>

lemma createBook_duplicate_isbn:
  assumes "c_isbn p = Some x" and "Some x \<in> r_isbn ` set tbl"
    and "CHR 0x00 \<notin> set (c_title p)" and "CHR 0x00 \<notin> set (c_author p)"
    and "CHR 0x00 \<notin> set x"
    and "c_publishedDate p = None
         \<or> (\<exists>d. c_publishedDate p = Some d \<and> CHR 0x00 \<notin> set d \<and> date_in d \<noteq> None)"
  shows "createBook date_in gen now tbl p
           = (Inl (APIError AlreadyExists ''A book with this ISBN already exists''), tbl)"
  using assms
  by (auto simp add: createBook_def insert_returning_def date_param_def text_param_def
      opt_text_param_def on_catch_duplicate_key split: option.splits)

lemma createBook_without_isbn:
  assumes "c_isbn p = None" and "gen \<notin> r_id ` set tbl"
    and "CHR 0x00 \<notin> set (c_title p)" and "CHR 0x00 \<notin> set (c_author p)"
    and "c_publishedDate p = None
         \<or> (\<exists>d. c_publishedDate p = Some d \<and> CHR 0x00 \<notin> set d \<and> date_in d \<noteq> None)"
  shows "\<exists>b. createBook date_in gen now tbl p =
           (Inr b, tbl @ [\<lparr>r_id = gen, r_title = c_title p, r_author = c_author p,
              r_published_date = Option.bind (c_publishedDate p) date_in, r_isbn = None,
              r_created_at = now, r_updated_at = now\<rparr>])"
  using assms
  by (auto simp add: createBook_def insert_returning_def date_param_def text_param_def
      opt_text_param_def Let_def split: option.splits)

text \<open>
  Claim C5: non-null isbn values are unique; a second \<^verbatim>\<open>createBook\<close> with an isbn in
  use fails with AlreadyExists, two without isbn both succeed, and \<^verbatim>\<open>updateBook\<close> fails
  with AlreadyExists when the new isbn is that of another row. The part on
  \<^verbatim>\<open>updateBook\<close> is not what the handler does: giving a second row the isbn of the test
  book is answered with the store's syntax error, not with AlreadyExists.
\<close>

theorem updateBook_isbn_collision_rejected:
  "r_isbn test_row = u_isbn isbn_update
   \<and> updateBook [test_row, other_row] isbn_update
       = (Inl (syntax_error_at ''$1''), [test_row, other_row])
   \<and> \<not> failsWith AlreadyExists (fst (updateBook [test_row, other_row] isbn_update))"
  by code_simp

lemma find_new_row: "u \<notin> f ` set xs \<Longrightarrow> f r = u \<Longrightarrow> find (\<lambda>r. f r = u) (xs @ [r]) = Some r"
  by (induction xs) auto

text \<open>
  Claim C8: after a \<^verbatim>\<open>createBook\<close> that succeeds, \<^verbatim>\<open>getBook\<close> on the returned id
  yields the created Book, equal to the request on every supplied field: title, author
  and isbn as supplied, publishedDate as the store's date type reads it. The id that
  \<^verbatim>\<open>gen_random_uuid()\<close> produced is a uuid in the store's output form.
\<close>

theorem createBook_then_getBook:
  assumes "createBook date_in gen now tbl p = (Inr b, tbl')" and "uuid_in gen = Some gen"
  shows "getBook tbl' (b_id b) = (Inr b, tbl')
    \<and> b_title b = c_title p \<and> b_author b = c_author p \<and> b_isbn b = c_isbn p
    \<and> b_publishedDate b = Option.bind (c_publishedDate p) date_in"
  using createBook_success[OF assms(1)] assms(2)
  by (simp add: getBook_def select_by_id_def uuid_param_def find_new_row book_of_row_def)

theorem createBook_then_getBook_witness:
  "createBook Some ''6f1c2a3e-0b4d-4c5e-8f90-a1b2c3d4e5f6'' 1 [other_row] test_params
     = (Inr (book_of_row test_row), [other_row, test_row])
   \<and> uuid_in ''6f1c2a3e-0b4d-4c5e-8f90-a1b2c3d4e5f6''
       = Some ''6f1c2a3e-0b4d-4c5e-8f90-a1b2c3d4e5f6''
   \<and> getBook [other_row, test_row] (b_id (book_of_row test_row))
       = (Inr (book_of_row test_row), [other_row, test_row])
   \<and> b_title (book_of_row test_row) = c_title test_params"
proof -
  have h1: "createBook Some ''6f1c2a3e-0b4d-4c5e-8f90-a1b2c3d4e5f6'' 1 [other_row] test_params
     = (Inr (book_of_row test_row), [other_row, test_row])"
    by code_simp
  have h2: "uuid_in ''6f1c2a3e-0b4d-4c5e-8f90-a1b2c3d4e5f6''
              = Some ''6f1c2a3e-0b4d-4c5e-8f90-a1b2c3d4e5f6''"
    by code_simp
  show ?thesis
    using h1 h2 createBook_then_getBook[OF h1 h2] by simp
qed

section \<open>listBooks\<close>

lemma b_title_book_of_row: "map b_title (map book_of_row rs) = map r_title rs"
  by (simp add: book_of_row_def)

lemma sorted_select_all: "sorted (map b_title (select_all tbl))"
  by (simp only: select_all_def b_title_book_of_row sorted_sort_key)

lemma mset_select_all: "mset (select_all tbl) = image_mset book_of_row (mset tbl)"
  by (simp add: select_all_def)

lemma select_all_filter:
  "select_all (filter (\<lambda>r. r_id r \<noteq> u) tbl) = filter (\<lambda>b. b_id b \<noteq> u) (select_all tbl)"
  by (simp add: select_all_def filter_sort filter_map o_def book_of_row_def)

lemma b_id_select_all: "map b_id (select_all tbl) = map r_id (sort_key r_title tbl)"
  by (simp add: select_all_def book_of_row_def)

lemma distinct_ids_select_all:
  assumes "distinct (map r_id tbl)"
  shows "distinct (map b_id (select_all tbl))"
proof -
  have "mset (map r_id (sort_key r_title tbl)) = mset (map r_id tbl)"
    by simp
  then have "distinct (map r_id (sort_key r_title tbl)) = distinct (map r_id tbl)"
    by (rule mset_eq_imp_distinct_iff)
  with assms show ?thesis
    by (simp only: b_id_select_all)
qed

text \<open>
  Claim C9: in every state of the store \<^verbatim>\<open>listBooks\<close> returns, without error, every
  Book of the table exactly once (the listing is a permutation of the rows' Books, and
  with the ids of the rows distinct, as the primary key keeps them, so are the ids listed),
  sorted by title ascending, and the empty sequence on the empty table. The table holds the
  Books created and not deleted: a successful \<^verbatim>\<open>createBook\<close> adds its Book to the
  listing once, and a successful \<^verbatim>\<open>deleteBook\<close> removes the Book of that id from it.
\<close>

theorem listBooks_all_sorted:
  "\<exists>books. listBooks tbl = (Inr books, tbl)
     \<and> mset books = image_mset book_of_row (mset tbl)
     \<and> (distinct (map r_id tbl) \<longrightarrow> distinct (map b_id books))
     \<and> sorted (map b_title books)
     \<and> (tbl = [] \<longrightarrow> books = [])
     \<and> (\<forall>date_in gen now p b tbl'. createBook date_in gen now tbl p = (Inr b, tbl') \<longrightarrow>
          (\<exists>books'. listBooks tbl' = (Inr books', tbl') \<and> mset books' = add_mset b (mset books)))
     \<and> (\<forall>i ok tbl'. deleteBook tbl i = (Inr ok, tbl') \<longrightarrow>
          (\<exists>u. uuid_in i = Some u
             \<and> listBooks tbl' = (Inr (filter (\<lambda>b. b_id b \<noteq> u) books), tbl')))"
proof -
  have create: "\<exists>books'. listBooks tbl' = (Inr books', tbl')
                  \<and> mset books' = add_mset b (mset (select_all tbl))"
    if "createBook date_in gen now tbl p = (Inr b, tbl')" for date_in gen now p b tbl'
    using createBook_success[OF that]
    by (simp add: listBooks_def mset_select_all book_of_row_def)
  have delete: "\<exists>u. uuid_in i = Some u
                  \<and> listBooks tbl' = (Inr (filter (\<lambda>b. b_id b \<noteq> u) (select_all tbl)), tbl')"
    if "deleteBook tbl i = (Inr ok, tbl')" for i ok tbl'
  proof (cases "uuid_in i")
    case None
    with that show ?thesis
      by (simp add: deleteBook_def delete_by_id_def uuid_param_def)
  next
    case (Some u)
    with that deleteBook_wellformed[OF Some, of tbl]
    have "tbl' = filter (\<lambda>r. r_id r \<noteq> u) tbl" by simp
    with Some show ?thesis
      by (simp add: listBooks_def select_all_filter)
  qed
  have "listBooks tbl = (Inr (select_all tbl), tbl)"
    by (simp add: listBooks_def)
  moreover have "tbl = [] \<longrightarrow> select_all tbl = []"
    by (simp add: select_all_def)
  ultimately show ?thesis
    using mset_select_all[of tbl] sorted_select_all[of tbl] distinct_ids_select_all[of tbl]
      create delete
    by blast
qed

theorem listBooks_all_sorted_witness:
  "listBooks [test_row, other_row]
     = (Inr [book_of_row other_row, book_of_row test_row], [test_row, other_row])
   \<and> sorted (map b_title [book_of_row other_row, book_of_row test_row])
   \<and> distinct (map r_id [test_row, other_row])
   \<and> distinct (map b_id [book_of_row other_row, book_of_row test_row])
   \<and> createBook Some ''aaaaaaaa-bbbb-4ccc-8ddd-eeeeeeeeeeee'' 3 [test_row, other_row] third_params
       = (Inr (book_of_row third_row), [test_row, other_row, third_row])
   \<and> (\<exists>books'. listBooks [test_row, other_row, third_row] = (Inr books', [test_row, other_row, third_row])
         \<and> mset books' = add_mset (book_of_row third_row) (mset [book_of_row other_row, book_of_row test_row]))
   \<and> deleteBook [test_row, other_row] ''6f1c2a3e-0b4d-4c5e-8f90-a1b2c3d4e5f6'' = (Inr True, [other_row])
   \<and> (\<exists>u. uuid_in ''6f1c2a3e-0b4d-4c5e-8f90-a1b2c3d4e5f6'' = Some u
         \<and> listBooks [other_row] = (Inr (filter (\<lambda>b. b_id b \<noteq> u) [book_of_row other_row, book_of_row test_row]), [other_row]))"
proof -
  have l: "listBooks [test_row, other_row]
     = (Inr [book_of_row other_row, book_of_row test_row], [test_row, other_row])"
    by code_simp
  have c: "createBook Some ''aaaaaaaa-bbbb-4ccc-8ddd-eeeeeeeeeeee'' 3 [test_row, other_row] third_params
       = (Inr (book_of_row third_row), [test_row, other_row, third_row])"
    by code_simp
  have d: "deleteBook [test_row, other_row] ''6f1c2a3e-0b4d-4c5e-8f90-a1b2c3d4e5f6'' = (Inr True, [other_row])"
    by code_simp
  have i: "distinct (map r_id [test_row, other_row])"
    by (simp add: test_row_def other_row_def)
  from listBooks_all_sorted[of "[test_row, other_row]"] l
  have s: "sorted (map b_title [book_of_row other_row, book_of_row test_row])"
    and di: "distinct (map r_id [test_row, other_row])
               \<longrightarrow> distinct (map b_id [book_of_row other_row, book_of_row test_row])"
    and cr: "\<forall>date_in gen now p b tbl'. createBook date_in gen now [test_row, other_row] p = (Inr b, tbl') \<longrightarrow>
          (\<exists>books'. listBooks tbl' = (Inr books', tbl') \<and> mset books' = add_mset b (mset [book_of_row other_row, book_of_row test_row]))"
    and de: "\<forall>i ok tbl'. deleteBook [test_row, other_row] i = (Inr ok, tbl') \<longrightarrow>
          (\<exists>u. uuid_in i = Some u
             \<and> listBooks tbl' = (Inr (filter (\<lambda>b. b_id b \<noteq> u) [book_of_row other_row, book_of_row test_row]), tbl'))"
    by auto
  from cr c de d l s i di show ?thesis by blast
qed

section \<open>The shape of a returned Book\<close>

text \<open>
  Claim C10: every Book that \<^verbatim>\<open>listBooks\<close>, \<^verbatim>\<open>getBook\<close>, \<^verbatim>\<open>createBook\<close>,
  \<^verbatim>\<open>updateBook\<close> or \<^verbatim>\<open>searchBooks\<close> returns has exactly the five fields id, title,
  author, publishedDate and isbn, and never the timestamps of the table. The type
  \<open>Book\<close> has these five fields and no other; every returned Book is the projection
  \<open>book_of_row\<close> of a row of the table (\<^verbatim>\<open>updateBook\<close> returns none at all); the
  projection is determined by the five columns, and the timestamps do not enter it.
\<close>

theorem returned_books_are_projections:
  "(\<exists>books. listBooks tbl = (Inr books, tbl) \<and> set books \<subseteq> book_of_row ` set tbl)
   \<and> (\<forall>b tbl'. getBook tbl i = (Inr b, tbl') \<longrightarrow> b \<in> book_of_row ` set tbl)
   \<and> (\<forall>b tbl'. createBook date_in gen now tbl cp = (Inr b, tbl') \<longrightarrow> b \<in> book_of_row ` set tbl')
   \<and> (\<forall>b. fst (updateBook tbl up) \<noteq> Inr b)
   \<and> (\<forall>books tbl'. searchBooks lower tbl q = (Inr books, tbl')
         \<longrightarrow> set books \<subseteq> book_of_row ` set tbl)
   \<and> (\<forall>r r'. book_of_row r = book_of_row r' \<longleftrightarrow>
         r_id r = r_id r' \<and> r_title r = r_title r' \<and> r_author r = r_author r'
         \<and> r_published_date r = r_published_date r' \<and> r_isbn r = r_isbn r')
   \<and> (\<forall>r ca ua. book_of_row (r\<lparr>r_created_at := ca, r_updated_at := ua\<rparr>) = book_of_row r)"
proof -
  have list: "\<exists>books. listBooks tbl = (Inr books, tbl) \<and> set books \<subseteq> book_of_row ` set tbl"
    by (simp add: listBooks_def select_all_def)
  have get: "b \<in> book_of_row ` set tbl" if "getBook tbl i = (Inr b, tbl')" for b tbl'
  proof -
    from that obtain u r where "find (\<lambda>r. r_id r = u) tbl = Some r" "b = book_of_row r"
      by (auto simp add: getBook_def select_by_id_def split: sum.splits option.splits)
    then show ?thesis
      by (auto simp add: find_Some_iff)
  qed
  have create: "b \<in> book_of_row ` set tbl'"
    if "createBook date_in gen now tbl cp = (Inr b, tbl')" for b tbl'
    using createBook_success[OF that] by (auto simp add: book_of_row_def)
  have search: "set books \<subseteq> book_of_row ` set tbl"
    if "searchBooks lower tbl q = (Inr books, tbl')" for books tbl'
    using that
    by (auto simp add: searchBooks_def select_ilike_def split: option.splits sum.splits)
  have proj: "book_of_row r = book_of_row r' \<longleftrightarrow>
         r_id r = r_id r' \<and> r_title r = r_title r' \<and> r_author r = r_author r'
         \<and> r_published_date r = r_published_date r' \<and> r_isbn r = r_isbn r'" for r r'
    by (auto simp add: book_of_row_def)
  have stamps: "book_of_row (r\<lparr>r_created_at := ca, r_updated_at := ua\<rparr>) = book_of_row r"
    for r ca ua
    by (simp add: book_of_row_def)
  show ?thesis
    using list get create search proj stamps updateBook_never_returns[of tbl up] by blast
qed

theorem returned_books_are_projections_witness:
  "getBook [test_row, other_row] ''6f1c2a3e-0b4d-4c5e-8f90-a1b2c3d4e5f6'' = (Inr (book_of_row test_row), [test_row, other_row])
   \<and> book_of_row test_row \<in> book_of_row ` set [test_row, other_row]
   \<and> createBook Some ''aaaaaaaa-bbbb-4ccc-8ddd-eeeeeeeeeeee'' 3 [test_row, other_row] third_params
       = (Inr (book_of_row third_row), [test_row, other_row, third_row])
   \<and> book_of_row third_row \<in> book_of_row ` set [test_row, other_row, third_row]
   \<and> searchBooks ascii_lower [test_row, other_row] ''another''
       = (Inr [book_of_row other_row], [test_row, other_row])
   \<and> set [book_of_row other_row] \<subseteq> book_of_row ` set [test_row, other_row]
   \<and> book_of_row (test_row\<lparr>r_created_at := 7, r_updated_at := 9\<rparr>) = book_of_row test_row"
proof -
  have g: "getBook [test_row, other_row] ''6f1c2a3e-0b4d-4c5e-8f90-a1b2c3d4e5f6'' = (Inr (book_of_row test_row), [test_row, other_row])"
    by code_simp
  have c: "createBook Some ''aaaaaaaa-bbbb-4ccc-8ddd-eeeeeeeeeeee'' 3 [test_row, other_row] third_params
       = (Inr (book_of_row third_row), [test_row, other_row, third_row])"
    by code_simp
  have s: "searchBooks ascii_lower [test_row, other_row] ''another''
             = (Inr [book_of_row other_row], [test_row, other_row])"
    by code_simp
  note t = returned_books_are_projections[of "[test_row, other_row]" "''6f1c2a3e-0b4d-4c5e-8f90-a1b2c3d4e5f6''"
      Some "''aaaaaaaa-bbbb-4ccc-8ddd-eeeeeeeeeeee''" 3 third_params title_author_update ascii_lower "''another''"]
  from t g have 1: "book_of_row test_row \<in> book_of_row ` set [test_row, other_row]" by blast
  from t c have 2: "book_of_row third_row \<in> book_of_row ` set [test_row, other_row, third_row]" by blast
  from t s have 3: "set [book_of_row other_row] \<subseteq> book_of_row ` set [test_row, other_row]" by blast
  from t have 4: "book_of_row (test_row\<lparr>r_created_at := 7, r_updated_at := 9\<rparr>) = book_of_row test_row" by blast
  from g c s 1 2 3 4 show ?thesis by blast
qed

section \<open>searchBooks\<close>

lemma like_parse_percent_end: "like_parse (s @ ''%'') \<noteq> None"
proof (induction s rule: like_parse.induct)
  case 1
  show ?case by simp
next
  case (2 c cs)
  show ?case
  proof (cases cs)
    case Nil
    then show ?thesis by simp
  next
    case (Cons d ds)
    with 2 show ?thesis by auto
  qed
qed

lemma like_parse_plain:
  "\<not> list_ex like_special s \<Longrightarrow>
     like_parse (s @ rest)
       = (case like_parse rest of None \<Rightarrow> None | Some ts \<Rightarrow> Some (map Lit s @ ts))"
  by (induction s) (auto simp: like_special_def split: option.splits)

lemma like_match_AnyString:
  "like_match (AnyString # ps) t \<longleftrightarrow> (\<exists>a b. t = a @ b \<and> like_match ps b)"
proof (induction t)
  case Nil
  then show ?case by simp
next
  case (Cons c cs)
  show ?case
  proof
    assume "like_match (AnyString # ps) (c # cs)"
    then consider "like_match ps (c # cs)" | "like_match (AnyString # ps) cs" by auto
    then show "\<exists>a b. c # cs = a @ b \<and> like_match ps b"
    proof cases
      case 1
      then have "c # cs = [] @ (c # cs) \<and> like_match ps (c # cs)" by simp
      then show ?thesis by blast
    next
      case 2
      with Cons obtain a b where "cs = a @ b" "like_match ps b" by auto
      then have "c # cs = (c # a) @ b \<and> like_match ps b" by simp
      then show ?thesis by blast
    qed
  next
    assume "\<exists>a b. c # cs = a @ b \<and> like_match ps b"
    then obtain a b where ab: "c # cs = a @ b" "like_match ps b" by auto
    show "like_match (AnyString # ps) (c # cs)"
    proof (cases a)
      case Nil
      with ab have "like_match ps (c # cs)" by simp
      then show ?thesis by simp
    next
      case (Cons x xs)
      with ab have "cs = xs @ b" by simp
      with ab Cons.IH show ?thesis by auto
    qed
  qed
qed

lemma like_match_Lits:
  "like_match (map Lit q @ ps) t \<longleftrightarrow> (\<exists>b. t = q @ b \<and> like_match ps b)"
proof (induction q arbitrary: t)
  case Nil
  then show ?case by simp
next
  case (Cons d q)
  then show ?case by (cases t) auto
qed

lemma like_match_AnyString_only: "like_match [AnyString] t"
  by (induction t) auto

lemma like_match_contains:
  "like_match (AnyString # map Lit q @ [AnyString]) t \<longleftrightarrow> sublist q t"
  by (auto simp: like_match_AnyString like_match_Lits like_match_AnyString_only sublist_def)

text \<open>
  The pattern of a query never ends in a lone backslash, and the pattern of a query without
  pattern characters is: any string, the folded query letter by letter, any string.
\<close>

lemma pattern_parses:
  assumes "folds_pattern lower q"
  shows "like_parse (lower (''%'' @ q @ ''%'')) \<noteq> None"
proof -
  from assms have "lower (''%'' @ q @ ''%'') = (CHR ''%'' # lower q) @ ''%''"
    by (simp add: folds_pattern_def)
  then show ?thesis
    by (simp only: like_parse_percent_end not_False_eq_True)
qed

lemma plain_pattern:
  assumes "folds_pattern lower q" and "\<not> list_ex like_special q"
  shows "like_parse (lower (''%'' @ q @ ''%''))
           = Some (AnyString # map Lit (lower q) @ [AnyString])"
proof -
  from assms have eq: "lower (''%'' @ q @ ''%'') = ''%'' @ lower q @ ''%''"
    and plain: "\<not> list_ex like_special (lower q)"
    by (auto simp add: folds_pattern_def)
  from like_parse_plain[OF plain, of "''%''"]
  have "like_parse (lower q @ ''%'') = Some (map Lit (lower q) @ [AnyString])"
    by simp
  then have "like_parse (''%'' @ lower q @ ''%'')
               = Some (AnyString # map Lit (lower q) @ [AnyString])"
    by simp
  then show ?thesis
    by (simp only: eq)
qed

lemma ilike_plain:
  "ilike lower (AnyString # map Lit (lower q) @ [AnyString]) t = ci_contains lower q t"
  by (simp only: ilike_def like_match_contains ci_contains_def)

lemma searchBooks_result:
  assumes "CHR 0x00 \<notin> set q" and "like_parse (lower (''%'' @ q @ ''%'')) = Some toks"
  shows "searchBooks lower tbl q =
           (Inr (map book_of_row (sort_key r_title
                   (filter (\<lambda>r. ilike lower toks (r_title r) \<or> ilike lower toks (r_author r))
                      tbl))), tbl)"
  using assms by (simp add: searchBooks_def select_ilike_def text_param_def)

lemma searchBooks_NUL:
  "CHR 0x00 \<in> set q \<Longrightarrow> searchBooks lower tbl q = (Inl invalid_byte_sequence, tbl)"
  by (simp add: searchBooks_def select_ilike_def text_param_def)

text \<open>
  Claim C3, as amended: for every query that the store accepts as text, that is, one
  without the NUL character, \<^verbatim>\<open>searchBooks(query)\<close> returns exactly the Books whose
  title or author matches the pattern \<^verbatim>\<open>%query%\<close> under ILIKE, the query being pattern
  text in which \<^verbatim>\<open>%\<close>, \<^verbatim>\<open>_\<close> and the backslash keep their special meaning, ordered by
  title ascending; when nothing matches this is the empty sequence, not an error. For a
  query without these three characters, these are exactly the Books whose title or author
  contains the query as a case-insensitive substring. A query with a NUL character is
  refused by the store, and \<^verbatim>\<open>searchBooks\<close> throws that error. The case is folded by
  the store's \<^verbatim>\<open>lower\<close>, of which only \<open>folds_pattern\<close> is used.
\<close>

theorem searchBooks_pattern_match:
  "(CHR 0x00 \<in> set q \<longrightarrow> searchBooks lower tbl q = (Inl invalid_byte_sequence, tbl))
   \<and> (CHR 0x00 \<notin> set q \<longrightarrow> folds_pattern lower q \<longrightarrow>
        (\<exists>books toks. searchBooks lower tbl q = (Inr books, tbl)
           \<and> like_parse (lower (''%'' @ q @ ''%'')) = Some toks
           \<and> mset books = image_mset book_of_row
                {#r \<in># mset tbl. ilike lower toks (r_title r) \<or> ilike lower toks (r_author r)#}
           \<and> sorted (map b_title books)
           \<and> (\<not> list_ex like_special q \<longrightarrow>
                mset books = image_mset book_of_row
                  {#r \<in># mset tbl. ci_contains lower q (r_title r)
                                     \<or> ci_contains lower q (r_author r)#})))"
proof -
  have accepted: "\<exists>books toks. searchBooks lower tbl q = (Inr books, tbl)
           \<and> like_parse (lower (''%'' @ q @ ''%'')) = Some toks
           \<and> mset books = image_mset book_of_row
                {#r \<in># mset tbl. ilike lower toks (r_title r) \<or> ilike lower toks (r_author r)#}
           \<and> sorted (map b_title books)
           \<and> (\<not> list_ex like_special q \<longrightarrow>
                mset books = image_mset book_of_row
                  {#r \<in># mset tbl. ci_contains lower q (r_title r)
                                     \<or> ci_contains lower q (r_author r)#})"
    if nul: "CHR 0x00 \<notin> set q" and fp: "folds_pattern lower q"
  proof -
    obtain toks where toks: "like_parse (lower (''%'' @ q @ ''%'')) = Some toks"
      using pattern_parses[OF fp] by auto
    define books where "books = map book_of_row (sort_key r_title
        (filter (\<lambda>r. ilike lower toks (r_title r) \<or> ilike lower toks (r_author r)) tbl))"
    have res: "searchBooks lower tbl q = (Inr books, tbl)"
      unfolding books_def by (rule searchBooks_result[where lower = lower, OF nul toks])
    have ms: "mset books = image_mset book_of_row
                {#r \<in># mset tbl. ilike lower toks (r_title r) \<or> ilike lower toks (r_author r)#}"
      by (simp add: books_def)
    have so: "sorted (map b_title books)"
      by (simp only: books_def b_title_book_of_row sorted_sort_key)
    have pl: "mset books = image_mset book_of_row
                {#r \<in># mset tbl. ci_contains lower q (r_title r)
                                   \<or> ci_contains lower q (r_author r)#}"
      if "\<not> list_ex like_special q"
    proof -
      from plain_pattern[OF fp that] toks
      have "toks = AnyString # map Lit (lower q) @ [AnyString]" by simp
      with ms show ?thesis by (simp only: ilike_plain)
    qed
    from res toks ms so pl show ?thesis by blast
  qed
  with searchBooks_NUL[of q lower tbl] show ?thesis by blast
qed

theorem searchBooks_pattern_match_witness:
  "CHR 0x00 \<notin> set ''test a''
   \<and> folds_pattern ascii_lower ''test a''
   \<and> \<not> list_ex like_special ''test a''
   \<and> searchBooks ascii_lower [test_row, other_row] ''test a''
       = (Inr [book_of_row other_row, book_of_row test_row], [test_row, other_row])
   \<and> mset [book_of_row other_row, book_of_row test_row]
       = image_mset book_of_row
           {#r \<in># mset [test_row, other_row].
              ci_contains ascii_lower ''test a'' (r_title r)
              \<or> ci_contains ascii_lower ''test a'' (r_author r)#}
   \<and> sorted (map b_title [book_of_row other_row, book_of_row test_row])
   \<and> CHR 0x00 \<in> set [CHR 0x00]
   \<and> searchBooks ascii_lower [test_row, other_row] [CHR 0x00]
       = (Inl invalid_byte_sequence, [test_row, other_row])"
proof -
  have n: "CHR 0x00 \<notin> set ''test a''"
    by simp
  have f: "folds_pattern ascii_lower ''test a''"
    by code_simp
  have p: "\<not> list_ex like_special ''test a''"
    by code_simp
  have s: "searchBooks ascii_lower [test_row, other_row] ''test a''
             = (Inr [book_of_row other_row, book_of_row test_row], [test_row, other_row])"
    by code_simp
  have z: "CHR 0x00 \<in> set [CHR 0x00]"
    by simp
  from searchBooks_pattern_match[of "''test a''" ascii_lower "[test_row, other_row]"] n f
  obtain books
    where b: "searchBooks ascii_lower [test_row, other_row] ''test a''
                = (Inr books, [test_row, other_row])"
    and so: "sorted (map b_title books)"
    and pl: "\<not> list_ex like_special ''test a'' \<longrightarrow>
          mset books = image_mset book_of_row
            {#r \<in># mset [test_row, other_row].
               ci_contains ascii_lower ''test a'' (r_title r)
               \<or> ci_contains ascii_lower ''test a'' (r_author r)#}"
    by blast
  from b s have "books = [book_of_row other_row, book_of_row test_row]"
    by (simp only: prod.inject sum.inject)
  moreover
  from searchBooks_pattern_match[of "[CHR 0x00]" ascii_lower "[test_row, other_row]"] z
  have "searchBooks ascii_lower [test_row, other_row] [CHR 0x00]
          = (Inl invalid_byte_sequence, [test_row, other_row])"
    by blast
  ultimately show ?thesis
    using n f p s so pl z by blast
qed

text \<open>
  Claim C3 as stated fails twice. For the query \<^verbatim>\<open>_\<close> the test book is returned,
  although neither its title nor its author contains an underscore. For the query that is
  one NUL character nothing matches, and the outcome is the store's error, not the empty
  sequence.
\<close>

theorem searchBooks_wildcard_counterexample:
  "searchBooks ascii_lower [test_row] ''_'' = (Inr [book_of_row test_row], [test_row])
   \<and> \<not> ci_contains ascii_lower ''_'' (b_title (book_of_row test_row))
   \<and> \<not> ci_contains ascii_lower ''_'' (b_author (book_of_row test_row))
   \<and> searchBooks ascii_lower [test_row] [CHR 0x00] = (Inl invalid_byte_sequence, [test_row])"
  by code_simp

section \<open>Uniqueness of isbn and of id\<close>

text \<open>
  The handlers keep the non-null isbn values distinct: \<^verbatim>\<open>createBook\<close> through the
  unique constraint, \<^verbatim>\<open>deleteBook\<close> by removing rows only, and \<^verbatim>\<open>updateBook\<close>
  because it never changes the table.
\<close>

lemma updateBook_table: "snd (updateBook tbl p) = tbl"
  by (auto simp add: updateBook_def Let_def update_set_param_def split: sum.splits option.splits)

lemma createBook_table:
  "snd (createBook date_in gen now tbl p) = tbl \<or>
   (\<exists>b. createBook date_in gen now tbl p = (Inr b, snd (createBook date_in gen now tbl p)))"
  by (auto simp add: createBook_def insert_returning_def Let_def
      split: sum.splits option.splits)

lemma isbn_unique_createBook:
  assumes "isbn_unique tbl"
  shows "isbn_unique (snd (createBook date_in gen now tbl p))"
proof -
  from createBook_table[of date_in gen now tbl p]
  consider "snd (createBook date_in gen now tbl p) = tbl"
    | b where "createBook date_in gen now tbl p = (Inr b, snd (createBook date_in gen now tbl p))"
    by blast
  then show ?thesis
  proof cases
    case 1
    with assms show ?thesis by simp
  next
    case 2
    from createBook_success[OF 2] assms show ?thesis
      by (auto simp add: isbn_unique_def)
  qed
qed

lemma isbn_unique_deleteBook: "isbn_unique tbl \<Longrightarrow> isbn_unique (snd (deleteBook tbl i))"
proof (cases "uuid_in i")
  case None
  assume "isbn_unique tbl"
  with None show ?thesis
    by (simp add: deleteBook_def delete_by_id_def uuid_param_def)
next
  case (Some u)
  assume "isbn_unique tbl"
  then have "distinct (map r_isbn (filter (\<lambda>r. r_isbn r \<noteq> None) tbl))"
    by (simp add: isbn_unique_def filter_map o_def)
  then have "distinct (map r_isbn (filter (\<lambda>r. r_id r \<noteq> u) (filter (\<lambda>r. r_isbn r \<noteq> None) tbl)))"
    by (rule distinct_map_filter)
  then show ?thesis
    by (simp add: deleteBook_wellformed[OF Some] isbn_unique_def filter_map o_def conj_commute)
qed

text \<open>Likewise the primary key: the ids of the rows stay distinct.\<close>

lemma ids_distinct_createBook:
  assumes "distinct (map r_id tbl)"
  shows "distinct (map r_id (snd (createBook date_in gen now tbl p)))"
proof -
  from createBook_table[of date_in gen now tbl p]
  consider "snd (createBook date_in gen now tbl p) = tbl"
    | b where "createBook date_in gen now tbl p = (Inr b, snd (createBook date_in gen now tbl p))"
    by blast
  then show ?thesis
  proof cases
    case 1
    with assms show ?thesis by simp
  next
    case 2
    from createBook_success[OF 2] assms show ?thesis
      by auto
  qed
qed

lemma ids_distinct_deleteBook:
  assumes "distinct (map r_id tbl)"
  shows "distinct (map r_id (snd (deleteBook tbl i)))"
proof (cases "uuid_in i")
  case None
  with assms show ?thesis
    by (simp add: deleteBook_def delete_by_id_def uuid_param_def)
next
  case (Some u)
  from assms have "distinct (map r_id (filter (\<lambda>r. r_id r \<noteq> u) tbl))"
    by (rule distinct_map_filter)
  then show ?thesis
    by (simp add: deleteBook_wellformed[OF Some])
qed

end
